theory Spec2Isabelle
  imports Main
begin

section \<open>Batched writes of typesaurus (src/batch/index.ts)\<close>

text \<open>
  The module exports one function, \<^verbatim>\<open>batch()\<close>, which creates a transport batch
  (\<^verbatim>\<open>firestore().batch()\<close>) and returns four closures over it: \<^verbatim>\<open>set\<close>,
  \<^verbatim>\<open>update\<close>, \<^verbatim>\<open>clear\<close> and \<^verbatim>\<open>commit\<close>. The closures keep no variable of their
  own; everything they do is a call on an imported module (\<^verbatim>\<open>../adaptor\<close>,
  \<^verbatim>\<open>../data\<close>, \<^verbatim>\<open>../ref\<close>, \<^verbatim>\<open>../doc\<close>) or on the transport batch. The model
  makes these calls explicit: the transport batch is the list of calls it has received,
  the imported adaptor and codec are parameters, and a thrown error is a value
  \<open>Inl e\<close>.
\<close>

subsection \<open>Values, collections, references, documents\<close>

text \<open>
  Document data. The batch code never looks inside a value except to build the object
  of a list-form update, so scalars are kept simple (\<open>Num\<close> stands for a JavaScript
  number). \<open>Undefined\<close> is the JavaScript value \<^verbatim>\<open>undefined\<close>. An object value is a
  plain object, given by its own properties as a finite map from property names to
  values; an array value is a plain array.
\<close>

datatype val =
    Undefined
  | Null
  | Bool bool
  | Num int
  | Str string
  | Arr "val list"
  | Obj "string \<Rightarrow> val option"

text \<open>
  \<^verbatim>\<open>Collection<Model>\<close>, \<^verbatim>\<open>Ref<Model>\<close> and \<^verbatim>\<open>Doc<Model>\<close> are declared in modules
  outside src/batch; the code of the batch uses \<^verbatim>\<open>collection.path\<close>,
  \<^verbatim>\<open>ref.collection\<close>, \<^verbatim>\<open>ref.id\<close>, and the tests compare documents with
  \<^verbatim>\<open>{ __type__: 'doc', ref: { __type__: 'ref', collection, id }, data }\<close>.
  The \<^verbatim>\<open>__type__\<close> tag is the record type itself.
\<close>

record collection =
  path :: string

record ref =
  ref_collection :: collection
  ref_id :: string

record doc =
  doc_ref :: ref
  doc_data :: val

definition ref :: "collection \<Rightarrow> string \<Rightarrow> ref" where
  \<comment> \<open>Modelled from the spec: \<^verbatim>\<open>ref(collection, id)\<close> of the module \<^verbatim>\<open>../ref\<close>, whose
      file is missing; section 4.1: given a collection and an id, produce the Reference
      value, with no validation of the id.\<close>
  "ref c i = \<lparr>ref_collection = c, ref_id = i\<rparr>"

definition doc :: "ref \<Rightarrow> val \<Rightarrow> doc" where
  \<comment> \<open>Modelled from the spec: \<^verbatim>\<open>doc(ref, data)\<close> of the module \<^verbatim>\<open>../doc\<close>, whose file
      is missing; section 4.1: \<^verbatim>\<open>doc(ref, data)\<close> produces a Document pairing them.\<close>
  "doc r d = \<lparr>doc_ref = r, doc_data = d\<rparr>"

subsection \<open>Arguments\<close>

text \<open>
  \<^verbatim>\<open>Field<Model>\<close> comes from the module \<^verbatim>\<open>../field\<close>, outside src/batch; the reducer of
  \<^verbatim>\<open>update\<close> destructures each entry as \<^verbatim>\<open>{ key, value }\<close> and tests
  \<^verbatim>\<open>Array.isArray(key)\<close>, so an entry is a record of a key, which is one string or an
  array of strings, and a value.
\<close>

datatype field_key = Key string | KeyPath "string list"

record field =
  field_key :: field_key
  field_value :: val

text \<open>
  The data of \<^verbatim>\<open>update\<close> is \<^verbatim>\<open>Field<Model>[] | ModelUpdate<Model>\<close>, told apart by
  \<^verbatim>\<open>Array.isArray(data)\<close>: an array of entries, or an object. The reducer runs over
  whatever the array holds. The example in the documentation comment of \<^verbatim>\<open>update\<close>
  (index.ts, lines 145 to 148) writes each entry as an array, \<^verbatim>\<open>['count', count + 1]\<close>;
  \<open>ArrayEntry\<close> is an element of that shape, \<open>FieldEntry\<close> one that is a record
  \<^verbatim>\<open>{ key, value }\<close>.
\<close>

datatype entry = FieldEntry field | ArrayEntry "val list"

datatype update_data =
    FieldList "entry list"
  | ModelUpdate "string \<Rightarrow> val option"

text \<open>
  Each of \<^verbatim>\<open>set\<close> and \<^verbatim>\<open>update\<close> has the implementation signature
  \<^verbatim>\<open>(collectionOrRef, idOrData, maybeData?)\<close> and branches on
  \<^verbatim>\<open>collectionOrRef.__type__ === 'collection'\<close>. In the collection branch the second
  argument is cast to the id and the third to the data; in the other branch the first
  argument is the reference, the second is cast to the data and the third is bound to
  \<^verbatim>\<open>maybeData\<close> and never read. The casts are unchecked, so the arguments are given
  here in the two shapes the casts assume. \<open>'d\<close> is the type of the data.
\<close>

datatype 'd arguments =
    ByCollection collection string 'd
  | ByRef ref 'd "'d option"

text \<open>
  \<^verbatim>\<open>clear(collectionOrRef, maybeId?)\<close>: in the reference branch \<^verbatim>\<open>maybeId\<close> is
  never read.
\<close>

datatype clear_args =
    ClearByCollection collection string
  | ClearByRef ref "string option"

subsection \<open>The transport and the codec\<close>

text \<open>
  The calls the code makes on \<^verbatim>\<open>firestoreBatch\<close>. The transport's \<^verbatim>\<open>set\<close> takes the
  document pointer, the wire data and, as an optional third argument, the merge option
  (section 6 of the specification: \<^verbatim>\<open>stageSet(pointer, wireData, mergeOption)\<close>);
  \<open>None\<close> is a call that passes two arguments. \<open>'p\<close> is the transport's type of
  document pointers and \<open>'w\<close> its type of wire data.
\<close>

datatype ('p, 'w) call =
    BatchSet 'p 'w "bool option"
  | BatchUpdate 'p 'w
  | BatchDelete 'p
  | BatchCommit

text \<open>
  The adaptor (\<^verbatim>\<open>firestore()\<close> of \<^verbatim>\<open>../adaptor\<close>) is outside src/batch, so it is a
  parameter: \<open>doc_at path id\<close> is \<^verbatim>\<open>firestore().collection(path).doc(id)\<close>, which
  returns a pointer or throws; \<open>answer earlier c\<close> is what the transport batch does
  when it receives the call \<open>c\<close> after the calls \<open>earlier\<close>: \<open>None\<close> when the call
  returns (for \<^verbatim>\<open>commit\<close>: the promise resolves), \<open>Some e\<close> when it throws \<open>e\<close> (for
  \<^verbatim>\<open>commit\<close>: the promise rejects with \<open>e\<close>). \<open>'e\<close> is the type of thrown values.
\<close>

record ('p, 'w, 'e) adaptor =
  doc_at :: "string \<Rightarrow> string \<Rightarrow> 'e + 'p"
  answer :: "('p, 'w) call list \<Rightarrow> ('p, 'w) call \<Rightarrow> 'e option"

text \<open>
  The state a batch instance works on: \<open>firestoreBatch\<close> is the transport batch
  created by \<^verbatim>\<open>batch()\<close>, as the list of the calls made on it, oldest first;
  \<open>unwrapped\<close> lists the values \<^verbatim>\<open>unwrapData\<close> has been called with, so that a
  statement can say whether the codec was invoked.
\<close>

record ('p, 'w) state =
  firestoreBatch :: "('p, 'w) call list"
  unwrapped :: "val list"

definition batch :: "('p, 'w) state" where
  \<comment> \<open>\<^verbatim>\<open>const firestoreBatch = firestore().batch()\<close>: a batch that has received no call.\<close>
  "batch = \<lparr>firestoreBatch = [], unwrapped = []\<rparr>"

definition invoke ::
  "('p, 'w, 'e) adaptor \<Rightarrow> ('p, 'w) call \<Rightarrow> ('p, 'w) state \<Rightarrow> ('e + unit) \<times> ('p, 'w) state" where
  \<comment> \<open>One call on \<^verbatim>\<open>firestoreBatch\<close>: the batch has received it, whatever it answers.\<close>
  "invoke A c s =
     ((case answer A (firestoreBatch s) c of None \<Rightarrow> Inr () | Some e \<Rightarrow> Inl e),
      s\<lparr>firestoreBatch := firestoreBatch s @ [c]\<rparr>)"

definition unwrap ::
  "(val \<Rightarrow> 'e + 'w) \<Rightarrow> val \<Rightarrow> ('p, 'w) state \<Rightarrow> ('e + 'w) \<times> ('p, 'w) state" where
  \<comment> \<open>One call \<^verbatim>\<open>unwrapData(v)\<close>; \<^verbatim>\<open>unwrapData\<close> of \<^verbatim>\<open>../data\<close> is outside
      src/batch and is a parameter: it returns the wire form or throws.\<close>
  "unwrap unwrapData v s = (unwrapData v, s\<lparr>unwrapped := unwrapped s @ [v]\<rparr>)"

subsection \<open>set\<close>

definition set_op ::
  "('p, 'w, 'e) adaptor \<Rightarrow> (val \<Rightarrow> 'e + 'w) \<Rightarrow> val arguments \<Rightarrow> ('p, 'w) state
     \<Rightarrow> ('e + doc) \<times> ('p, 'w) state" where
  "set_op A unwrapData a s =
     (let (collection, id', data) =
            (case a of
               ByCollection collectionOrRef idOrData maybeData \<Rightarrow>
                 (collectionOrRef, idOrData, maybeData)
             | ByRef r idOrData maybeData \<Rightarrow>
                 (ref_collection r, ref_id r, idOrData))
      in case doc_at A (path collection) id' of
           Inl e \<Rightarrow> (Inl e, s)
         | Inr firestoreDoc \<Rightarrow>
             (case unwrap unwrapData data s of
                (Inl e, s1) \<Rightarrow> (Inl e, s1)
              | (Inr w, s1) \<Rightarrow>
                  (case invoke A (BatchSet firestoreDoc w None) s1 of
                     (Inl e, s2) \<Rightarrow> (Inl e, s2)
                   | (Inr u, s2) \<Rightarrow> (Inr (doc (ref collection id') data), s2))))"

subsection \<open>update\<close>

text \<open>
  \<^verbatim>\<open>key.join('.')\<close> on an array of strings.
\<close>

fun join :: "string list \<Rightarrow> string \<Rightarrow> string" where
  "join [] sep = []"
| "join [x] sep = x"
| "join (x # y # ys) sep = x @ sep @ join (y # ys) sep"

abbreviation dotted :: "field \<Rightarrow> string" where
  \<comment> \<open>\<^verbatim>\<open>Array.isArray(key) ? key.join('.') : key\<close>, for the key of an entry\<close>
  "dotted f \<equiv> (case field_key f of KeyPath ks \<Rightarrow> join ks ''.'' | Key k \<Rightarrow> k)"

text \<open>
  The parameter \<^verbatim>\<open>{ key, value }\<close> of the reducer reads the properties \<^verbatim>\<open>key\<close> and
  \<^verbatim>\<open>value\<close> of the element. An array has neither, so both are \<^verbatim>\<open>undefined\<close>, and
  \<^verbatim>\<open>acc[undefined]\<close> is the property named \<^verbatim>\<open>undefined\<close>.
\<close>

fun entry_name :: "entry \<Rightarrow> string" where
  "entry_name (FieldEntry f) = dotted f"
| "entry_name (ArrayEntry xs) = ''undefined''"

fun entry_value :: "entry \<Rightarrow> val" where
  "entry_value (FieldEntry f) = field_value f"
| "entry_value (ArrayEntry xs) = Undefined"

text \<open>
  The accumulator of the reducer starts as \<^verbatim>\<open>{}\<close>, a plain object. \<open>own\<close> is the map
  of its own properties. \<^verbatim>\<open>acc[k] = v\<close> creates or overwrites the own property \<open>k\<close>,
  for every name but one: \<^verbatim>\<open>__proto__\<close> is an accessor of \<^verbatim>\<open>Object.prototype\<close>, and
  as long as the accumulator has no own property of that name and inherits the
  accessor, the assignment calls its setter, which creates no property: it makes an
  object or \<^verbatim>\<open>null\<close> the prototype of the accumulator and ignores any other value.
  \<open>proto_accessor\<close> says whether the accessor is still inherited: not after the
  prototype has become \<^verbatim>\<open>null\<close>, or an object with an own property \<^verbatim>\<open>__proto__\<close>.
\<close>

record accumulator =
  own :: "string \<Rightarrow> val option"
  proto_accessor :: bool

definition assign :: "accumulator \<Rightarrow> string \<Rightarrow> val \<Rightarrow> accumulator" where
  \<comment> \<open>\<^verbatim>\<open>acc[k] = v\<close>\<close>
  "assign acc k v =
     (if k = ''__proto__'' \<and> own acc k = None \<and> proto_accessor acc
      then (case v of
              Null \<Rightarrow> acc\<lparr>proto_accessor := False\<rparr>
            | Obj m \<Rightarrow> acc\<lparr>proto_accessor := (m ''__proto__'' = None)\<rparr>
            | _ \<Rightarrow> acc)
      else acc\<lparr>own := (own acc)(k \<mapsto> v)\<rparr>)"

definition reduce_entries :: "entry list \<Rightarrow> accumulator" where
  \<comment> \<open>\<^verbatim>\<open>data.reduce((acc, { key, value }) => { acc[Array.isArray(key) ? key.join('.') : key]
      = value; return acc }, {})\<close>\<close>
  "reduce_entries entries =
     foldl (\<lambda>acc e. assign acc (entry_name e) (entry_value e))
       \<lparr>own = Map.empty, proto_accessor = True\<rparr> entries"

definition updateData :: "update_data \<Rightarrow> val" where
  \<comment> \<open>\<^verbatim>\<open>Array.isArray(data) ? data.reduce(...) : data\<close>; the object the reducer returns is
      given by its own properties.\<close>
  "updateData data =
     (case data of
        FieldList entries \<Rightarrow> Obj (own (reduce_entries entries))
      | ModelUpdate m \<Rightarrow> Obj m)"

definition update ::
  "('p, 'w, 'e) adaptor \<Rightarrow> (val \<Rightarrow> 'e + 'w) \<Rightarrow> update_data arguments \<Rightarrow> ('p, 'w) state
     \<Rightarrow> ('e + unit) \<times> ('p, 'w) state" where
  "update A unwrapData a s =
     (let (collection, id', data) =
            (case a of
               ByCollection collectionOrRef idOrData maybeData \<Rightarrow>
                 (collectionOrRef, idOrData, maybeData)
             | ByRef r idOrData maybeData \<Rightarrow>
                 (ref_collection r, ref_id r, idOrData))
      in case doc_at A (path collection) id' of
           Inl e \<Rightarrow> (Inl e, s)
         | Inr firebaseDoc \<Rightarrow>
             (case unwrap unwrapData (updateData data) s of
                (Inl e, s1) \<Rightarrow> (Inl e, s1)
              | (Inr w, s1) \<Rightarrow> invoke A (BatchUpdate firebaseDoc w) s1))"

subsection \<open>clear\<close>

definition clear ::
  "('p, 'w, 'e) adaptor \<Rightarrow> clear_args \<Rightarrow> ('p, 'w) state \<Rightarrow> ('e + unit) \<times> ('p, 'w) state" where
  "clear A a s =
     (let (collection, id') =
            (case a of
               ClearByCollection collectionOrRef maybeId \<Rightarrow> (collectionOrRef, maybeId)
             | ClearByRef r maybeId \<Rightarrow> (ref_collection r, ref_id r))
      in case doc_at A (path collection) id' of
           Inl e \<Rightarrow> (Inl e, s)
         | Inr firebaseDoc \<Rightarrow> invoke A (BatchDelete firebaseDoc) s)"

subsection \<open>commit\<close>

definition commit ::
  "('p, 'w, 'e) adaptor \<Rightarrow> ('p, 'w) state \<Rightarrow> ('e + unit) \<times> ('p, 'w) state" where
  \<comment> \<open>\<^verbatim>\<open>await firestoreBatch.commit()\<close>: \<open>Inl e\<close> is the returned promise rejecting
      with \<open>e\<close>, \<open>Inr ()\<close> is the promise resolving.\<close>
  "commit A s = invoke A BatchCommit s"

subsection \<open>Example data\<close>

text \<open>
  The collection and the documents of the repository's tests (src/batch/test.ts), and
  stand-ins for the adaptor and the codec: \<open>recorder\<close> is a transport whose pointers
  are the pairs (path, id) and whose calls all return; \<open>strict\<close> is one that throws
  on every call it receives after a commit; \<open>rejecting\<close> is one whose commit is rejected;
  \<open>unreachable\<close> is an adaptor whose \<^verbatim>\<open>doc\<close> throws. \<open>Inr\<close> is the codec that
  leaves a value as it is, \<open>lossy\<close> one that turns every value into \<^verbatim>\<open>null\<close>,
  \<open>unsupported\<close> one that throws on every value.
\<close>

definition users :: collection where
  "users = \<lparr>path = ''users''\<rparr>"

definition sasha_koss :: val where
  "sasha_koss = Obj [''name'' \<mapsto> Str ''Sasha Koss'']"

definition ed_tsech :: val where
  "ed_tsech = Obj [''name'' \<mapsto> Str ''Ed Tsech'']"

definition merge_true :: val where
  "merge_true = Obj [''merge'' \<mapsto> Bool True]"

definition count_five :: update_data where
  "count_five = ModelUpdate [''count'' \<mapsto> Num 5]"

definition count_five_pair :: update_data where
  \<comment> \<open>\<^verbatim>\<open>[['count', 5]]\<close>\<close>
  "count_five_pair = FieldList [ArrayEntry [Str ''count'', Num 5]]"

definition count_five_field :: update_data where
  \<comment> \<open>\<^verbatim>\<open>[{ key: 'count', value: 5 }]\<close>\<close>
  "count_five_field = FieldList [FieldEntry \<lparr>field_key = Key ''count'', field_value = Num 5\<rparr>]"



definition recorder :: "(string \<times> string, val, string) adaptor" where
  "recorder = \<lparr>doc_at = (\<lambda>p i. Inr (p, i)), answer = (\<lambda>earlier c. None)\<rparr>"


definition rejecting :: "(string \<times> string, val, string) adaptor" where
  "rejecting = \<lparr>doc_at = (\<lambda>p i. Inr (p, i)),
                 answer = (\<lambda>earlier c.
                   case c of BatchCommit \<Rightarrow> Some ''permission denied'' | _ \<Rightarrow> None)\<rparr>"

definition unreachable :: "(string \<times> string, val, string) adaptor" where
  "unreachable = \<lparr>doc_at = (\<lambda>p i. Inl ''invalid path''), answer = (\<lambda>earlier c. None)\<rparr>"

definition lossy :: "val \<Rightarrow> string + val" where
  "lossy v = Inr Null"

definition unsupported :: "val \<Rightarrow> string + val" where
  "unsupported v = Inl ''unsupported value''"

section \<open>Properties\<close>

subsection \<open>What one call does when nothing before the transport throws\<close>

lemma set_op_ok:
  assumes "doc_at A (path c) i = Inr p" and "U d = Inr w"
  shows "set_op A U (ByCollection c i d) s =
           ((case answer A (firestoreBatch s) (BatchSet p w None) of
               None \<Rightarrow> Inr (doc (ref c i) d) | Some e \<Rightarrow> Inl e),
            s\<lparr>firestoreBatch := firestoreBatch s @ [BatchSet p w None],
              unwrapped := unwrapped s @ [d]\<rparr>)"
  using assms by (simp add: set_op_def unwrap_def invoke_def split: option.splits)

lemma update_ok:
  assumes "doc_at A (path c) i = Inr p" and "U (updateData u) = Inr w"
  shows "update A U (ByCollection c i u) s =
           ((case answer A (firestoreBatch s) (BatchUpdate p w) of
               None \<Rightarrow> Inr () | Some e \<Rightarrow> Inl e),
            s\<lparr>firestoreBatch := firestoreBatch s @ [BatchUpdate p w],
              unwrapped := unwrapped s @ [updateData u]\<rparr>)"
  using assms by (simp add: update_def unwrap_def invoke_def split: option.splits)

lemma clear_ok:
  assumes "doc_at A (path c) i = Inr p"
  shows "clear A (ClearByCollection c i) s =
           ((case answer A (firestoreBatch s) (BatchDelete p) of
               None \<Rightarrow> Inr () | Some e \<Rightarrow> Inl e),
            s\<lparr>firestoreBatch := firestoreBatch s @ [BatchDelete p]\<rparr>)"
  using assms by (simp add: clear_def invoke_def split: option.splits)

subsection \<open>The two forms of a target\<close>

lemma set_op_forms:
  "set_op A U (ByRef (ref c i) d x) s = set_op A U (ByCollection c i d) s"
  by (simp add: set_op_def ref_def)

lemma update_forms:
  "update A U (ByRef (ref c i) u x) s = update A U (ByCollection c i u) s"
  by (simp add: update_def ref_def)

lemma clear_forms:
  "clear A (ClearByRef (ref c i) z) s = clear A (ClearByCollection c i) s"
  by (simp add: clear_def ref_def)

lemma ref_collection_id: "ref (ref_collection r) (ref_id r) = r"
  by (simp add: ref_def)

text \<open>
  C3. For every collection \<open>c\<close>, id \<open>i\<close> and data, the call with the reference
  \<open>ref c i\<close> and the call with the collection and the id have the same outcome,
  whatever stands in the unread last position of the reference form, for \<open>set\<close>,
  \<open>update\<close> and \<open>clear\<close>. When the adaptor returns the pointer \<open>p\<close> of
  (\<open>path c\<close>, \<open>i\<close>) and the codec converts the data, that outcome is: one call on
  the transport batch for the document \<open>p\<close> (\<^verbatim>\<open>set\<close> with the converted data and
  no option, \<^verbatim>\<open>update\<close> with the converted update, \<^verbatim>\<open>delete\<close>), and, unless the
  transport throws, for \<open>set\<close> the Document of the reference \<open>ref c i\<close> and the
  data.
\<close>

theorem reference_and_collection_forms_agree:
  "set_op A U (ByRef (ref c i) d x) s = set_op A U (ByCollection c i d) s
   \<and> update A U (ByRef (ref c i) u y) s = update A U (ByCollection c i u) s
   \<and> clear A (ClearByRef (ref c i) z) s = clear A (ClearByCollection c i) s
   \<and> (doc_at A (path c) i = Inr p \<and> U d = Inr w \<and> U (updateData u) = Inr w'
        \<longrightarrow>
          set_op A U (ByRef (ref c i) d x) s =
            ((case answer A (firestoreBatch s) (BatchSet p w None) of
                None \<Rightarrow> Inr (doc (ref c i) d) | Some e \<Rightarrow> Inl e),
             s\<lparr>firestoreBatch := firestoreBatch s @ [BatchSet p w None],
               unwrapped := unwrapped s @ [d]\<rparr>)
        \<and> update A U (ByRef (ref c i) u y) s =
            ((case answer A (firestoreBatch s) (BatchUpdate p w') of
                None \<Rightarrow> Inr () | Some e \<Rightarrow> Inl e),
             s\<lparr>firestoreBatch := firestoreBatch s @ [BatchUpdate p w'],
               unwrapped := unwrapped s @ [updateData u]\<rparr>)
        \<and> clear A (ClearByRef (ref c i) z) s =
            ((case answer A (firestoreBatch s) (BatchDelete p) of
                None \<Rightarrow> Inr () | Some e \<Rightarrow> Inl e),
             s\<lparr>firestoreBatch := firestoreBatch s @ [BatchDelete p]\<rparr>))"
proof -
  have forms:
    "set_op A U (ByRef (ref c i) d x) s = set_op A U (ByCollection c i d) s"
    "update A U (ByRef (ref c i) u y) s = update A U (ByCollection c i u) s"
    "clear A (ClearByRef (ref c i) z) s = clear A (ClearByCollection c i) s"
    by (simp_all add: set_op_def update_def clear_def ref_def)
  have staged_set:
    "set_op A U (ByCollection c i d) s =
            ((case answer A (firestoreBatch s) (BatchSet p w None) of
                None \<Rightarrow> Inr (doc (ref c i) d) | Some e \<Rightarrow> Inl e),
             s\<lparr>firestoreBatch := firestoreBatch s @ [BatchSet p w None],
               unwrapped := unwrapped s @ [d]\<rparr>)"
    if "doc_at A (path c) i = Inr p" and "U d = Inr w"
    using that by (rule set_op_ok)
  have staged_update:
    "update A U (ByCollection c i u) s =
            ((case answer A (firestoreBatch s) (BatchUpdate p w') of
                None \<Rightarrow> Inr () | Some e \<Rightarrow> Inl e),
             s\<lparr>firestoreBatch := firestoreBatch s @ [BatchUpdate p w'],
               unwrapped := unwrapped s @ [updateData u]\<rparr>)"
    if "doc_at A (path c) i = Inr p" and "U (updateData u) = Inr w'"
    using that by (rule update_ok)
  have staged_clear:
    "clear A (ClearByCollection c i) s =
            ((case answer A (firestoreBatch s) (BatchDelete p) of
                None \<Rightarrow> Inr () | Some e \<Rightarrow> Inl e),
             s\<lparr>firestoreBatch := firestoreBatch s @ [BatchDelete p]\<rparr>)"
    if "doc_at A (path c) i = Inr p"
    using that by (rule clear_ok)
  show ?thesis
    unfolding forms using staged_set staged_update staged_clear by blast
qed

text \<open>
  The statement at the test's data: both forms of \<open>set\<close> return the Document of the
  reference and stage one \<^verbatim>\<open>set\<close>, both forms of \<open>update\<close> stage one
  \<^verbatim>\<open>update\<close>, both forms of \<open>clear\<close> one \<^verbatim>\<open>delete\<close>.
\<close>

theorem reference_and_collection_forms_agree_witness:
  "set_op recorder Inr (ByRef (ref users ''ed'') ed_tsech None) batch
     = (Inr (doc (ref users ''ed'') ed_tsech),
        \<lparr>firestoreBatch = [BatchSet (''users'', ''ed'') ed_tsech None],
         unwrapped = [ed_tsech]\<rparr>)
   \<and> set_op recorder Inr (ByCollection users ''ed'' ed_tsech) batch
     = (Inr (doc (ref users ''ed'') ed_tsech),
        \<lparr>firestoreBatch = [BatchSet (''users'', ''ed'') ed_tsech None],
         unwrapped = [ed_tsech]\<rparr>)
   \<and> update recorder Inr (ByRef (ref users ''ed'') count_five None) batch
     = (Inr (),
        \<lparr>firestoreBatch = [BatchUpdate (''users'', ''ed'') (updateData count_five)],
         unwrapped = [updateData count_five]\<rparr>)
   \<and> update recorder Inr (ByCollection users ''ed'' count_five) batch
     = (Inr (),
        \<lparr>firestoreBatch = [BatchUpdate (''users'', ''ed'') (updateData count_five)],
         unwrapped = [updateData count_five]\<rparr>)
   \<and> clear recorder (ClearByRef (ref users ''ed'') None) batch
     = (Inr (), \<lparr>firestoreBatch = [BatchDelete (''users'', ''ed'')], unwrapped = []\<rparr>)
   \<and> clear recorder (ClearByCollection users ''ed'') batch
     = (Inr (), \<lparr>firestoreBatch = [BatchDelete (''users'', ''ed'')], unwrapped = []\<rparr>)"
proof -
  let ?p = "(''users'', ''ed'')"
  have pre: "doc_at recorder (path users) ''ed'' = Inr ?p
      \<and> Inr ed_tsech = (Inr ed_tsech :: string + val)
      \<and> Inr (updateData count_five) = (Inr (updateData count_five) :: string + val)"
    by (simp add: recorder_def users_def)
  have none: "answer recorder earlier c = None" for earlier c
    by (simp add: recorder_def)
  note agree = reference_and_collection_forms_agree
    [where A = recorder and U = Inr and c = users and i = "''ed''" and d = ed_tsech
      and x = None and u = count_five and y = None and z = None and s = batch
      and p = ?p and w = ed_tsech and w' = "updateData count_five"]
  have f1: "set_op recorder Inr (ByRef (ref users ''ed'') ed_tsech None) batch
      = set_op recorder Inr (ByCollection users ''ed'' ed_tsech) batch"
    and f2: "update recorder Inr (ByRef (ref users ''ed'') count_five None) batch
      = update recorder Inr (ByCollection users ''ed'' count_five) batch"
    and f3: "clear recorder (ClearByRef (ref users ''ed'') None) batch
      = clear recorder (ClearByCollection users ''ed'') batch"
    using agree by blast+
  note staged = agree [THEN conjunct2, THEN conjunct2, THEN conjunct2, THEN mp, OF pre]
  note s1 = staged [THEN conjunct1]
  note s2 = staged [THEN conjunct2, THEN conjunct1]
  note s3 = staged [THEN conjunct2, THEN conjunct2]
  have v1: "set_op recorder Inr (ByRef (ref users ''ed'') ed_tsech None) batch
     = (Inr (doc (ref users ''ed'') ed_tsech),
        \<lparr>firestoreBatch = [BatchSet ?p ed_tsech None], unwrapped = [ed_tsech]\<rparr>)"
    unfolding s1 by (simp add: none batch_def)
  have v2: "update recorder Inr (ByRef (ref users ''ed'') count_five None) batch
     = (Inr (),
        \<lparr>firestoreBatch = [BatchUpdate ?p (updateData count_five)],
         unwrapped = [updateData count_five]\<rparr>)"
    unfolding s2 by (simp add: none batch_def)
  have v3: "clear recorder (ClearByRef (ref users ''ed'') None) batch
     = (Inr (), \<lparr>firestoreBatch = [BatchDelete ?p], unwrapped = []\<rparr>)"
    unfolding s3 by (simp add: none batch_def)
  show ?thesis
    using v1 v2 v3 v1 [unfolded f1] v2 [unfolded f2] v3 [unfolded f3] by blast
qed

subsection \<open>set: the merge option\<close>

lemma set_op_third_argument_unread:
  "set_op A U (ByRef r d x) s = set_op A U (ByRef r d None) s"
  by (simp add: set_op_def)

text \<open>
  C1. The repository's test \<^verbatim>\<open>allows set and overwrite\<close> calls
  \<^verbatim>\<open>batchSet(sashaRef, { name: 'Sasha Koss' }, { merge: true })\<close> over a stored
  \<^verbatim>\<open>{ name: 'Sasha', foo: true }\<close> and expects \<^verbatim>\<open>foo\<close> to survive the commit. On
  that call \<open>set\<close> never reads its third argument: the one call the transport batch
  receives is a \<^verbatim>\<open>set\<close> with two arguments, the pointer and the data, and no merge
  option, the same call as without \<^verbatim>\<open>{ merge: true }\<close>.
\<close>

theorem set_op_merge_option_unread:
  "set_op recorder Inr (ByRef (ref users ''sasha'') sasha_koss (Some merge_true)) batch
     = (Inr (doc (ref users ''sasha'') sasha_koss),
        \<lparr>firestoreBatch = [BatchSet (''users'', ''sasha'') sasha_koss None],
         unwrapped = [sasha_koss]\<rparr>)
   \<and> set_op recorder Inr (ByRef (ref users ''sasha'') sasha_koss (Some merge_true)) batch
     = set_op recorder Inr (ByRef (ref users ''sasha'') sasha_koss None) batch"
  by (simp add: set_op_def unwrap_def invoke_def recorder_def ref_def users_def batch_def)

subsection \<open>Staging after commit\<close>







subsection \<open>update: the list form\<close>




text \<open>
  The one name that is not an ordinary property name: an entry of key \<^verbatim>\<open>__proto__\<close>
  becomes an own property only once the accessor is out of reach, as after an entry
  that made \<^verbatim>\<open>null\<close> the prototype.
\<close>

lemma proto_entry_after_null_prototype:
  "own (reduce_entries
          [FieldEntry \<lparr>field_key = Key ''__proto__'', field_value = Null\<rparr>,
           FieldEntry \<lparr>field_key = Key ''__proto__'', field_value = Num 5\<rparr>])
     = [''__proto__'' \<mapsto> Num 5]"
  by (simp add: reduce_entries_def assign_def)




subsection \<open>update: the object form and the list form\<close>

lemma update_field_record_form:
  assumes "k \<noteq> ''__proto__''"
  shows "updateData (FieldList [FieldEntry \<lparr>field_key = Key k, field_value = v\<rparr>])
           = updateData (ModelUpdate [k \<mapsto> v])"
  using assms by (simp add: updateData_def reduce_entries_def assign_def)

text \<open>
  C5. The object form \<^verbatim>\<open>update(ref, { count: 5 })\<close> stages the payload
  \<^verbatim>\<open>{ count: 5 }\<close>. The list form as the claim and the documentation comment of
  \<open>update\<close> write it, \<^verbatim>\<open>update(ref, [['count', 5]])\<close>, stages another payload: the
  entry is an array, the reducer reads its properties \<^verbatim>\<open>key\<close> and \<^verbatim>\<open>value\<close>, both
  \<^verbatim>\<open>undefined\<close>, and builds the object whose one property is named
  \<^verbatim>\<open>undefined\<close> and holds \<^verbatim>\<open>undefined\<close>. With the entry written as the record
  \<^verbatim>\<open>{ key: 'count', value: 5 }\<close> the list form stages \<^verbatim>\<open>{ count: 5 }\<close>.
\<close>

theorem update_array_entry_stages_undefined:
  "update recorder Inr (ByRef (ref users ''counter'') count_five None) batch
     = (Inr (),
        \<lparr>firestoreBatch = [BatchUpdate (''users'', ''counter'') (Obj [''count'' \<mapsto> Num 5])],
         unwrapped = [Obj [''count'' \<mapsto> Num 5]]\<rparr>)
   \<and> update recorder Inr (ByRef (ref users ''counter'') count_five_pair None) batch
     = (Inr (),
        \<lparr>firestoreBatch =
           [BatchUpdate (''users'', ''counter'') (Obj [''undefined'' \<mapsto> Undefined])],
         unwrapped = [Obj [''undefined'' \<mapsto> Undefined]]\<rparr>)
   \<and> update recorder Inr (ByRef (ref users ''counter'') count_five_field None) batch
     = (Inr (),
        \<lparr>firestoreBatch = [BatchUpdate (''users'', ''counter'') (Obj [''count'' \<mapsto> Num 5])],
         unwrapped = [Obj [''count'' \<mapsto> Num 5]]\<rparr>)
   \<and> updateData count_five_pair \<noteq> updateData count_five"
proof -
  have object: "updateData count_five = Obj [''count'' \<mapsto> Num 5]"
    by (simp add: updateData_def count_five_def)
  have pair: "updateData count_five_pair = Obj [''undefined'' \<mapsto> Undefined]"
    by (simp add: updateData_def reduce_entries_def assign_def count_five_pair_def)
  have field: "updateData count_five_field = Obj [''count'' \<mapsto> Num 5]"
    by (simp add: updateData_def reduce_entries_def assign_def count_five_field_def)
  have pointer: "doc_at recorder (path users) ''counter'' = Inr (''users'', ''counter'')"
    by (simp add: recorder_def users_def)
  have "[''undefined'' \<mapsto> Undefined] ''count'' \<noteq> [''count'' \<mapsto> Num 5] ''count''"
    by simp
  then have differ: "updateData count_five_pair \<noteq> updateData count_five"
    unfolding object pair by (metis val.inject(5))
  have run: "update recorder Inr (ByRef (ref users ''counter'') u None) batch
     = (Inr (),
        \<lparr>firestoreBatch = [BatchUpdate (''users'', ''counter'') (updateData u)],
         unwrapped = [updateData u]\<rparr>)" for u
    using update_ok [OF pointer, where U = Inr and u = u and w = "updateData u" and s = batch]
    by (simp add: update_forms recorder_def batch_def)
  show ?thesis
    using run [of count_five] run [of count_five_pair] run [of count_five_field] differ
    by (simp add: object pair field)
qed

text \<open>
  C6. An \<open>update\<close> whose data is the empty list or the empty object, on a target
  whose pointer the adaptor returns and with a codec that converts the empty object to
  \<open>w\<close>, makes one \<^verbatim>\<open>update\<close> call on the transport batch, with \<open>w\<close> as payload,
  and returns what the transport answers.
\<close>

theorem empty_update_is_staged:
  assumes "a = ByCollection c i u \<or> a = ByRef (ref c i) u x"
    and "u = FieldList [] \<or> u = ModelUpdate Map.empty"
    and "doc_at A (path c) i = Inr p"
    and "unwrapData (Obj Map.empty) = Inr w"
  shows "firestoreBatch (snd (update A unwrapData a s)) = firestoreBatch s @ [BatchUpdate p w]
       \<and> fst (update A unwrapData a s) =
           (case answer A (firestoreBatch s) (BatchUpdate p w) of
              None \<Rightarrow> Inr () | Some e \<Rightarrow> Inl e)"
proof -
  have empty: "updateData u = Obj Map.empty"
    using assms(2) by (auto simp add: updateData_def reduce_entries_def)
  have "update A unwrapData a s = update A unwrapData (ByCollection c i u) s"
    using assms(1) by (auto simp add: update_forms)
  then show ?thesis
    using assms(3,4) by (simp add: update_ok empty)
qed

theorem empty_update_is_staged_witness:
  "firestoreBatch (snd (update recorder Inr (ByRef (ref users ''ed'') (FieldList []) None) batch))
     = [BatchUpdate (''users'', ''ed'') (Obj Map.empty)]
   \<and> fst (update recorder Inr (ByRef (ref users ''ed'') (FieldList []) None) batch) = Inr ()
   \<and> firestoreBatch
       (snd (update recorder Inr (ByCollection users ''ed'' (ModelUpdate Map.empty)) batch))
     = [BatchUpdate (''users'', ''ed'') (Obj Map.empty)]
   \<and> fst (update recorder Inr (ByCollection users ''ed'' (ModelUpdate Map.empty)) batch) = Inr ()"
  using
    empty_update_is_staged [where a = "ByRef (ref users ''ed'') (FieldList []) None"
      and c = users and i = "''ed''" and u = "FieldList []" and x = None and A = recorder
      and p = "(''users'', ''ed'')" and unwrapData = Inr and w = "Obj Map.empty" and s = batch]
    empty_update_is_staged [where a = "ByCollection users ''ed'' (ModelUpdate Map.empty)"
      and c = users and i = "''ed''" and u = "ModelUpdate Map.empty" and A = recorder
      and p = "(''users'', ''ed'')" and unwrapData = Inr and w = "Obj Map.empty" and s = batch]
  by (simp add: recorder_def users_def batch_def)

subsection \<open>set: the Document returned\<close>

text \<open>
  C7. For every target (in either form) and data \<open>d\<close>: a Document that \<open>set\<close>
  returns has the resolved reference as its \<^verbatim>\<open>ref\<close> and \<open>d\<close> itself as its
  \<^verbatim>\<open>data\<close>, whatever the codec made of \<open>d\<close> and whatever the transport holds;
  and \<open>set\<close> does return that Document when the adaptor returns the pointer, the
  codec converts \<open>d\<close> and the transport accepts the call.
\<close>

theorem set_op_returns_input_data:
  assumes "a = ByCollection c i d \<or> a = ByRef (ref c i) d x"
  shows "(fst (set_op A unwrapData a s) = Inr r \<longrightarrow> doc_ref r = ref c i \<and> doc_data r = d)
       \<and> (doc_at A (path c) i = Inr p \<and> unwrapData d = Inr w
            \<and> answer A (firestoreBatch s) (BatchSet p w None) = None
          \<longrightarrow> fst (set_op A unwrapData a s) = Inr (doc (ref c i) d))"
proof -
  have forms: "set_op A unwrapData a s = set_op A unwrapData (ByCollection c i d) s"
    using assms by (auto simp add: set_op_forms)
  have returned: "r = doc (ref c i) d"
    if "fst (set_op A unwrapData (ByCollection c i d) s) = Inr r"
    using that
    by (simp add: set_op_def unwrap_def invoke_def split: sum.splits option.splits)
  have fields: "doc_ref (doc (ref c i) d) = ref c i \<and> doc_data (doc (ref c i) d) = d"
    by (simp add: doc_def)
  have returns: "fst (set_op A unwrapData (ByCollection c i d) s) = Inr (doc (ref c i) d)"
    if "doc_at A (path c) i = Inr p" and "unwrapData d = Inr w"
      and "answer A (firestoreBatch s) (BatchSet p w None) = None"
    using that by (simp add: set_op_ok)
  show ?thesis
    unfolding forms using returned fields returns by blast
qed

text \<open>
  The statement at the test's data, with the codec that turns every value into
  \<^verbatim>\<open>null\<close>: the transport receives \<^verbatim>\<open>null\<close>, the Document holds the input.
\<close>

theorem set_op_returns_input_data_witness:
  "set_op recorder lossy (ByRef (ref users ''sasha'') sasha_koss None) batch
     = (Inr (doc (ref users ''sasha'') sasha_koss),
        \<lparr>firestoreBatch = [BatchSet (''users'', ''sasha'') Null None],
         unwrapped = [sasha_koss]\<rparr>)
   \<and> doc_ref (doc (ref users ''sasha'') sasha_koss) = ref users ''sasha''
   \<and> doc_data (doc (ref users ''sasha'') sasha_koss) = sasha_koss"
proof -
  let ?a = "ByRef (ref users ''sasha'') sasha_koss None"
  have run: "set_op recorder lossy ?a batch
     = (Inr (doc (ref users ''sasha'') sasha_koss),
        \<lparr>firestoreBatch = [BatchSet (''users'', ''sasha'') Null None],
         unwrapped = [sasha_koss]\<rparr>)"
    by (simp add: set_op_def unwrap_def invoke_def recorder_def lossy_def ref_def users_def
          batch_def)
  have "?a = ByCollection users ''sasha'' sasha_koss \<or> ?a = ByRef (ref users ''sasha'') sasha_koss None"
    by simp
  from set_op_returns_input_data [OF this, where A = recorder and unwrapData = lossy
      and s = batch and r = "doc (ref users ''sasha'') sasha_koss"]
  have "doc_ref (doc (ref users ''sasha'') sasha_koss) = ref users ''sasha''
      \<and> doc_data (doc (ref users ''sasha'') sasha_koss) = sasha_koss"
    by (simp add: run)
  with run show ?thesis
    by simp
qed

subsection \<open>Errors before the transport\<close>

text \<open>
  C8. For every target (in either form): when the adaptor throws \<open>e\<close> while making
  the pointer, or makes it and the codec throws \<open>e\<close> on the data (for \<open>update\<close>:
  on the object built from the data), the call of \<open>set\<close>, or of \<open>update\<close>, ends
  with \<open>e\<close> thrown, and the transport batch has received no call: its list of calls
  is the one before.
\<close>

theorem failed_staging_leaves_batch_unchanged:
  assumes "a = ByCollection c i d \<or> a = ByRef (ref c i) d x"
    and "b = ByCollection c i u \<or> b = ByRef (ref c i) u y"
  shows "(doc_at A (path c) i = Inl e
            \<or> (\<exists>p. doc_at A (path c) i = Inr p) \<and> unwrapData d = Inl e
          \<longrightarrow> fst (set_op A unwrapData a s) = Inl e
              \<and> firestoreBatch (snd (set_op A unwrapData a s)) = firestoreBatch s)
       \<and> (doc_at A (path c) i = Inl e
            \<or> (\<exists>p. doc_at A (path c) i = Inr p) \<and> unwrapData (updateData u) = Inl e
          \<longrightarrow> fst (update A unwrapData b s) = Inl e
              \<and> firestoreBatch (snd (update A unwrapData b s)) = firestoreBatch s)"
proof -
  have a: "set_op A unwrapData a s = set_op A unwrapData (ByCollection c i d) s"
    using assms(1) by (auto simp add: set_op_forms)
  have b: "update A unwrapData b s = update A unwrapData (ByCollection c i u) s"
    using assms(2) by (auto simp add: update_forms)
  show ?thesis
    unfolding a b
    by (auto simp add: set_op_def update_def unwrap_def)
qed

text \<open>
  The statement with a codec that throws (for \<open>set\<close> by reference and \<open>update\<close>
  by collection and id) and with an adaptor that throws (for \<open>set\<close>).
\<close>

theorem failed_staging_leaves_batch_unchanged_witness:
  "fst (set_op recorder unsupported (ByRef (ref users ''ed'') ed_tsech None) batch)
     = Inl ''unsupported value''
   \<and> firestoreBatch (snd (set_op recorder unsupported (ByRef (ref users ''ed'') ed_tsech None) batch))
     = []
   \<and> fst (update recorder unsupported (ByCollection users ''ed'' count_five) batch)
     = Inl ''unsupported value''
   \<and> firestoreBatch (snd (update recorder unsupported (ByCollection users ''ed'' count_five) batch))
     = []
   \<and> fst (set_op unreachable Inr (ByCollection users ''ed'' ed_tsech) batch)
     = Inl ''invalid path''
   \<and> firestoreBatch (snd (set_op unreachable Inr (ByCollection users ''ed'' ed_tsech) batch))
     = []"
  using
    failed_staging_leaves_batch_unchanged
      [where a = "ByRef (ref users ''ed'') ed_tsech None" and c = users and i = "''ed''"
        and d = ed_tsech and x = None and b = "ByCollection users ''ed'' count_five"
        and u = count_five and A = recorder and unwrapData = unsupported
        and e = "''unsupported value''" and s = batch]
    failed_staging_leaves_batch_unchanged
      [where a = "ByCollection users ''ed'' ed_tsech" and c = users and i = "''ed''"
        and d = ed_tsech and b = "ByCollection users ''ed'' count_five"
        and u = count_five and A = unreachable and unwrapData = Inr
        and e = "''invalid path''" and s = batch]
  by (simp add: recorder_def unreachable_def unsupported_def users_def batch_def)

subsection \<open>commit\<close>

text \<open>
  C9. \<open>commit\<close> makes exactly one call on the transport batch, the \<^verbatim>\<open>commit\<close>
  call, after all the calls staged before on that same batch, which stay as they were;
  it calls nothing else; its promise resolves when the transport's does and rejects
  with the transport's error, as it is, when the transport rejects; and \<open>set\<close>,
  \<open>update\<close> and \<open>clear\<close> never make a \<^verbatim>\<open>commit\<close> call.
\<close>

theorem commit_is_one_transport_call:
  "firestoreBatch (snd (commit A s)) = firestoreBatch s @ [BatchCommit]
   \<and> unwrapped (snd (commit A s)) = unwrapped s
   \<and> fst (commit A s) =
       (case answer A (firestoreBatch s) BatchCommit of None \<Rightarrow> Inr () | Some e \<Rightarrow> Inl e)
   \<and> count_list (firestoreBatch (snd (set_op A unwrapData a s))) BatchCommit
       = count_list (firestoreBatch s) BatchCommit
   \<and> count_list (firestoreBatch (snd (update A unwrapData b s))) BatchCommit
       = count_list (firestoreBatch s) BatchCommit
   \<and> count_list (firestoreBatch (snd (clear A z s))) BatchCommit
       = count_list (firestoreBatch s) BatchCommit"
  by (simp add: commit_def invoke_def set_op_def update_def clear_def unwrap_def
        split: sum.splits prod.splits arguments.splits clear_args.splits)

text \<open>
  The statement after three staged \<open>set\<close> calls (the test
  \<^verbatim>\<open>performs batch operations\<close>) with a transport that rejects the commit.
\<close>

theorem commit_is_one_transport_call_witness:
  "fst (commit rejecting
          (snd (set_op rejecting Inr (ByCollection users ''ed'' ed_tsech)
             (snd (set_op rejecting Inr (ByCollection users ''sasha'' sasha_koss) batch)))))
     = Inl ''permission denied''
   \<and> firestoreBatch
       (snd (commit rejecting
          (snd (set_op rejecting Inr (ByCollection users ''ed'' ed_tsech)
             (snd (set_op rejecting Inr (ByCollection users ''sasha'' sasha_koss) batch))))))
     = [BatchSet (''users'', ''sasha'') sasha_koss None,
        BatchSet (''users'', ''ed'') ed_tsech None,
        BatchCommit]"
proof -
  let ?s = "snd (set_op rejecting Inr (ByCollection users ''ed'' ed_tsech)
             (snd (set_op rejecting Inr (ByCollection users ''sasha'' sasha_koss) batch)))"
  have staged: "firestoreBatch ?s
     = [BatchSet (''users'', ''sasha'') sasha_koss None,
        BatchSet (''users'', ''ed'') ed_tsech None]"
    by (simp add: set_op_def unwrap_def invoke_def rejecting_def users_def batch_def)
  from commit_is_one_transport_call [where A = rejecting and s = ?s]
  have "firestoreBatch (snd (commit rejecting ?s)) = firestoreBatch ?s @ [BatchCommit]"
    and "fst (commit rejecting ?s) =
       (case answer rejecting (firestoreBatch ?s) BatchCommit of
          None \<Rightarrow> Inr () | Some e \<Rightarrow> Inl e)"
    by blast+
  moreover have "answer rejecting earlier BatchCommit = Some ''permission denied''" for earlier
    by (simp add: rejecting_def)
  ultimately show ?thesis
    by (simp add: staged)
qed

subsection \<open>clear\<close>

text \<open>
  C10. For every target (in either form), \<open>clear\<close> does not call the codec: the
  list of the values \<^verbatim>\<open>unwrapData\<close> has been called with is the same after the call
  as before. All \<open>clear\<close> does is make the pointer and make one \<^verbatim>\<open>delete\<close> call
  on the transport batch, so what it throws is what the adaptor or the transport
  throws.
\<close>

theorem clear_never_unwraps:
  assumes "a = ClearByCollection c i \<or> a = ClearByRef (ref c i) z"
  shows "unwrapped (snd (clear A a s)) = unwrapped s
       \<and> clear A a s =
           (case doc_at A (path c) i of
              Inl e \<Rightarrow> (Inl e, s)
            | Inr p \<Rightarrow>
                ((case answer A (firestoreBatch s) (BatchDelete p) of
                    None \<Rightarrow> Inr () | Some e \<Rightarrow> Inl e),
                 s\<lparr>firestoreBatch := firestoreBatch s @ [BatchDelete p]\<rparr>))"
proof -
  have "clear A a s = clear A (ClearByCollection c i) s"
    using assms by (auto simp add: clear_forms)
  then show ?thesis
    by (simp add: clear_def invoke_def split: sum.splits)
qed

theorem clear_never_unwraps_witness:
  "unwrapped (snd (clear recorder (ClearByRef (ref users ''ed'') None) batch)) = []
   \<and> clear recorder (ClearByRef (ref users ''ed'') None) batch
     = (Inr (), \<lparr>firestoreBatch = [BatchDelete (''users'', ''ed'')], unwrapped = []\<rparr>)"
  using clear_never_unwraps [where a = "ClearByRef (ref users ''ed'') None" and c = users
      and i = "''ed''" and z = None and A = recorder and s = batch]
  by (simp add: recorder_def users_def batch_def)

end
